theory Spec2Isabelle
  imports Main "HOL-Library.Word"
begin

section \<open>Byte buffers and the helpers of \<open>utils/bytes\<close>\<close>

text \<open>
  A Node \<open>Buffer\<close> is a list of bytes. The class \<open>BytesUtils\<close> is imported by
  \<open>utils/block.ts\<close> from \<open>./bytes\<close>; its three helpers used by the encoder are
  written here from the description of the encoder's fields.
\<close>

type_synonym byte = "8 word"
type_synonym Buffer = "byte list"

text \<open>
  The \<open>n\<close> low-order base-256 digits of an integer, most significant first. For a
  negative integer the digits are those of its two's complement, which is the
  \<open>255, 255, ..., 255, 232\<close> that the comment in \<open>getTransactionHash\<close> reports.
\<close>

fun toBytesBE :: "nat \<Rightarrow> int \<Rightarrow> Buffer" where
  "toBytesBE 0 v = []"
| "toBytesBE (Suc n) v = toBytesBE n (v div 256) @ [word_of_int (v mod 256)]"

text \<open>Reading a buffer as an unsigned big-endian integer.\<close>

fun fromBytesBE_acc :: "int \<Rightarrow> Buffer \<Rightarrow> int" where
  "fromBytesBE_acc acc [] = acc"
| "fromBytesBE_acc acc (b # bs) = fromBytesBE_acc (acc * 256 + uint b) bs"

definition fromBytesBE :: "Buffer \<Rightarrow> int" where
  "fromBytesBE bs = fromBytesBE_acc 0 bs"

text \<open>
  Modelled from the spec: \<open>BytesUtils.longToBytes\<close> (file \<open>utils/bytes\<close>, absent):
  "fixed-width integers are big-endian", 8 bytes.
\<close>

definition longToBytes :: "int \<Rightarrow> Buffer" where
  "longToBytes longValue = toBytesBE 8 longValue"

text \<open>
  Modelled from the spec: \<open>BytesUtils.numberToBytes\<close> (file \<open>utils/bytes\<close>, absent):
  the big-endian encoding of the integer in \<open>numBytes\<close> bytes; on a negative value
  "all-high-bit padding", as the comment at its call site records.
\<close>

definition numberToBytes :: "int \<Rightarrow> nat \<Rightarrow> Buffer" where
  "numberToBytes num numBytes = toBytesBE numBytes num"

text \<open>
  Modelled from the spec: \<open>BytesUtils.leftPadBytes\<close> (file \<open>utils/bytes\<close>, absent):
  "left-padded" with zero bytes up to the given length; a buffer that is already that long
  is returned as it is.
\<close>

definition leftPadBytes :: "Buffer \<Rightarrow> nat \<Rightarrow> Buffer" where
  "leftPadBytes bytes len = replicate (len - length bytes) 0 @ bytes"

subsection \<open>\<open>Buffer.from(s, "hex")\<close>\<close>

text \<open>
  Node's hex decoding: two characters give one byte, upper and lower case digits are
  both accepted, decoding stops at the first pair that is not two hex digits, and a
  trailing single character is dropped.
\<close>

definition hexDigit :: "char \<Rightarrow> nat option" where
  "hexDigit c =
     (let n = (of_char c :: nat) in
      if 48 \<le> n \<and> n \<le> 57 then Some (n - 48)
      else if 97 \<le> n \<and> n \<le> 102 then Some (n - 87)
      else if 65 \<le> n \<and> n \<le> 70 then Some (n - 55)
      else None)"

fun Buffer_from_hex :: "string \<Rightarrow> Buffer" where
  "Buffer_from_hex (a # b # rest) =
     (case hexDigit a of
        None \<Rightarrow> []
      | Some x \<Rightarrow>
          (case hexDigit b of
             None \<Rightarrow> []
           | Some y \<Rightarrow> of_nat (16 * x + y) # Buffer_from_hex rest))"
| "Buffer_from_hex [a] = []"
| "Buffer_from_hex [] = []"

section \<open>The data model\<close>

text \<open>
  A \<open>Hash\<close> object holds its bytes in the field \<open>hash\<close>; \<open>getBytes()\<close> returns
  them. The pipeline compares \<open>Hash\<close> references with \<open>==\<close>, which on JavaScript
  objects is identity, and only ever against the module constant \<open>emptyHash\<close>. Hash
  objects are not mutated by the pipeline, so a reference is modelled by the bytes of
  the object together with a flag telling whether it is that very constant.
\<close>

record Hash =
  hash_core :: Buffer
  isEmptyHashObject :: bool

definition Hash_getBytes :: "Hash \<Rightarrow> Buffer" where
  "Hash_getBytes h = hash_core h"

text \<open>
  Modelled from the spec: the constant \<open>emptyHash\<close> of \<open>model/primitives/hash\<close>
  (absent), the "well-known empty-hash sentinel": thirty-two zero bytes.
\<close>

definition emptyHash :: Hash where
  "emptyHash = \<lparr>hash_core = replicate 32 0, isEmptyHashObject = True\<rparr>"

text \<open>\<open>a == emptyHash\<close> on object references.\<close>

definition refEqEmptyHash :: "Hash \<Rightarrow> bool" where
  "refEqEmptyHash h = isEmptyHashObject h"

record Address =
  hrp :: string
  core :: Buffer

definition Address_getBytes :: "Address \<Rightarrow> Buffer" where
  "Address_getBytes a = core a"

record TokenStandard =
  ts_core :: Buffer

definition TokenStandard_getBytes :: "TokenStandard \<Rightarrow> Buffer" where
  "TokenStandard_getBytes z = ts_core z"

record HashHeight =
  hh_hash :: Hash
  hh_height :: int

record AccountBlockTemplate =
  version :: int
  chainIdentifier :: int
  blockType :: int
  hash :: Hash
  previousHash :: Hash
  height :: int
  momentumAcknowledged :: HashHeight
  address :: Address
  toAddress :: Address
  amount :: int
  tokenStandard :: TokenStandard
  fromBlockHash :: Hash
  data :: Buffer
  fusedPlasma :: int
  difficulty :: int
  nonce :: string
  publicKey :: Buffer
  signature :: Buffer

section \<open>Collaborators and imported names\<close>

text \<open>
  An exception or a rejected promise is a value. \<open>throw Error()\<close> is
  \<open>Error []\<close>: an \<open>Error\<close> object whose message is the empty string. What a
  collaborator fails with is its own business; \<open>Failure\<close> tags such a value.
\<close>

datatype error = Error string | Failure string

datatype PowStatus = PowStatus_generating | PowStatus_done

text \<open>The fields that the pipeline reads of a block and of a momentum returned by the ledger.\<close>

record AccountBlock =
  ab_hash :: Hash
  ab_height :: int
  ab_toAddress :: Address

record Momentum =
  m_hash :: Hash
  m_height :: int

record GetRequiredParam =
  gp_address :: Address
  gp_blockType :: int
  gp_toAddress :: Address
  gp_data :: Buffer

record GetRequiredResponse =
  availablePlasma :: int
  basePlasma :: int
  requiredDifficulty :: int

text \<open>
  What \<open>utils/block.ts\<close> imports and this development does not define: the digest
  behind \<open>Hash.digest\<close> (the network's 256-bit hash), the bytes that
  \<open>HashHeight.getBytes()\<close> gives for an acknowledged momentum, the text that
  \<open>Address.toString()\<close> gives for an address, the solver \<open>generatePoW\<close> (its
  result in string form, which is what the pipeline stores), and the numbers of the
  enumeration \<open>BlockTypeEnum\<close>.
\<close>

record Imports =
  digestBytes :: "Buffer \<Rightarrow> Buffer"
  HashHeight_getBytes :: "HashHeight \<Rightarrow> Buffer"
  Address_toString :: "Address \<Rightarrow> string"
  generatePoW :: "Hash \<Rightarrow> int \<Rightarrow> error + string"
  userSend :: int
  contractSend :: int
  userReceive :: int
  genesisReceive :: int
  contractReceive :: int

text \<open>The key material: \<open>getAddress\<close>, \<open>getPublicKey\<close> and \<open>sign\<close>.\<close>

record KeyPair =
  getAddress :: "error + Address"
  getPublicKey :: "error + Buffer"
  sign :: "Buffer \<Rightarrow> error + Buffer"

text \<open>
  The client instance: \<open>zenonInstance.ledger\<close> and
  \<open>zenonInstance.embedded.plasma\<close>. A query that finds nothing answers \<open>null\<close>,
  here \<open>None\<close>.
\<close>

record Zenon =
  ledger_getFrontierBlock :: "Address \<Rightarrow> error + AccountBlock option"
  ledger_getFrontierMomentum :: "error + Momentum"
  ledger_getBlockByHash :: "Hash \<Rightarrow> error + AccountBlock option"
  ledger_publishRawTransaction :: "AccountBlockTemplate \<Rightarrow> error + unit"
  plasma_getRequiredPoWForAccountBlock :: "GetRequiredParam \<Rightarrow> error + GetRequiredResponse"

text \<open>
  The progress observer is a JavaScript \<open>Function\<close>. As far as this file calls it,
  it is given a \<open>this\<close> value and a list of arguments, and either returns or throws.
\<close>

type_synonym Function = "PowStatus \<Rightarrow> PowStatus list \<Rightarrow> error + unit"

text \<open>\<open>Hash.digest\<close> returns a new \<open>Hash\<close> object.\<close>

definition Hash_digest :: "Imports \<Rightarrow> Buffer \<Rightarrow> Hash" where
  "Hash_digest I b = \<lparr>hash_core = digestBytes I b, isEmptyHashObject = False\<rparr>"

section \<open>The canonical encoder: \<open>BlockUtils.getTransactionHash\<close>\<close>

text \<open>The buffer \<open>source\<close> that \<open>getTransactionHash\<close> builds and digests.\<close>

definition getTransactionHash_source :: "Imports \<Rightarrow> AccountBlockTemplate \<Rightarrow> Buffer" where
  "getTransactionHash_source I transaction =
     (let versionBytes = longToBytes (version transaction);
          chainIdentifierBytes = longToBytes (chainIdentifier transaction);
          blockTypeBytes = longToBytes (blockType transaction);
          previousHashBytes = Hash_getBytes (previousHash transaction);
          heightBytes = longToBytes (height transaction);
          momentumAcknowledgedBytes = HashHeight_getBytes I (momentumAcknowledged transaction);
          addressBytes = Address_getBytes (address transaction);
          toAddressBytes = Address_getBytes (toAddress transaction);
          amountBytes = numberToBytes (amount transaction) 32;
          tokenStandardBytes = TokenStandard_getBytes (tokenStandard transaction);
          fromBlockHashBytes = hash_core (fromBlockHash transaction);
          descendentBlocksBytes = Hash_getBytes (Hash_digest I []);
          dataBytes = Hash_getBytes (Hash_digest I (data transaction));
          fusedPlasmaBytes = longToBytes (fusedPlasma transaction);
          difficultyBytes = longToBytes (difficulty transaction);
          nonceBytes = leftPadBytes (Buffer_from_hex (nonce transaction)) 8
      in concat [
           versionBytes,
           chainIdentifierBytes,
           blockTypeBytes,
           previousHashBytes,
           heightBytes,
           momentumAcknowledgedBytes,
           addressBytes,
           toAddressBytes,
           amountBytes,
           tokenStandardBytes,
           fromBlockHashBytes,
           descendentBlocksBytes,
           dataBytes,
           fusedPlasmaBytes,
           difficultyBytes,
           nonceBytes
         ])"

definition getTransactionHash :: "Imports \<Rightarrow> AccountBlockTemplate \<Rightarrow> Hash" where
  "getTransactionHash I transaction = Hash_digest I (getTransactionHash_source I transaction)"

section \<open>Asynchronous steps over the template object\<close>

text \<open>
  Every stage of the pipeline mutates the one template object it is given and calls
  collaborators in between. A run is therefore a function on the state made of that
  object and of the list of collaborator calls made so far; it ends with a value or
  with an error, and in both cases the mutations made before are in the state.
\<close>

datatype event =
    Call_getAddress
  | Call_getPublicKey
  | Call_getFrontierBlock Address
  | Call_getFrontierMomentum
  | Call_getBlockByHash Hash
  | Call_getRequiredPoWForAccountBlock GetRequiredParam
  | Call_generatingPowCallback PowStatus "PowStatus list"
  | Call_generatePoW Hash int
  | Call_sign Buffer
  | Call_publishRawTransaction AccountBlockTemplate

record Run =
  template :: AccountBlockTemplate
  calls :: "event list"

type_synonym 'a Promise = "Run \<Rightarrow> (error + 'a) \<times> Run"

definition resolve :: "'a \<Rightarrow> 'a Promise" where
  "resolve x = (\<lambda>s. (Inr x, s))"

definition throw :: "error \<Rightarrow> 'a Promise" where
  "throw e = (\<lambda>s. (Inl e, s))"

definition andThen :: "'a Promise \<Rightarrow> ('a \<Rightarrow> 'b Promise) \<Rightarrow> 'b Promise" where
  "andThen m f = (\<lambda>s. case m s of (Inl e, s') \<Rightarrow> (Inl e, s') | (Inr x, s') \<Rightarrow> f x s')"

text \<open>Calling a collaborator: the call is recorded, its answer is the outcome.\<close>

definition await :: "event \<Rightarrow> error + 'a \<Rightarrow> 'a Promise" where
  "await ev answer = (\<lambda>s. (answer, s\<lparr>calls := calls s @ [ev]\<rparr>))"

definition readTemplate :: "AccountBlockTemplate Promise" where
  "readTemplate = (\<lambda>s. (Inr (template s), s))"

definition assign :: "(AccountBlockTemplate \<Rightarrow> AccountBlockTemplate) \<Rightarrow> unit Promise" where
  "assign f = (\<lambda>s. (Inr (), s\<lparr>template := f (template s)\<rparr>))"

text \<open>\<open>f?.call(status)\<close>: nothing when \<open>f\<close> is undefined; otherwise \<open>f\<close> is called with
  \<open>status\<close> as its \<open>this\<close> value and with no argument.\<close>

definition optionalCall :: "Function option \<Rightarrow> PowStatus \<Rightarrow> unit Promise" where
  "optionalCall f status =
     (case f of
        None \<Rightarrow> resolve ()
      | Some g \<Rightarrow> await (Call_generatingPowCallback status []) (g status []))"

section \<open>\<open>BlockUtils\<close>\<close>

text \<open>The parameter \<open>blockType\<close> of \<open>isSendBlock\<close> is optional: \<open>None\<close> is \<open>undefined\<close>.\<close>

definition isSendBlock :: "Imports \<Rightarrow> int option \<Rightarrow> bool" where
  "isSendBlock I bt = List.member [Some (userSend I), Some (contractSend I)] bt"

definition isReceiveBlock :: "Imports \<Rightarrow> int \<Rightarrow> bool" where
  "isReceiveBlock I bt =
     List.member [userReceive I, genesisReceive I, contractReceive I] bt"

definition getTransactionSignature :: "KeyPair \<Rightarrow> AccountBlockTemplate \<Rightarrow> Buffer Promise" where
  "getTransactionSignature keyPair transaction =
     await (Call_sign (Hash_getBytes (hash transaction)))
           (sign keyPair (Hash_getBytes (hash transaction)))"

definition getPoWData :: "Imports \<Rightarrow> AccountBlockTemplate \<Rightarrow> Hash" where
  "getPoWData I transaction =
     Hash_digest I (concat [Address_getBytes (address transaction),
                            Hash_getBytes (previousHash transaction)])"

definition autofillTransactionParameters :: "Zenon \<Rightarrow> unit Promise" where
  "autofillTransactionParameters zenonInstance =
     andThen readTemplate (\<lambda>accountBlockTemplate.
     andThen (await (Call_getFrontierBlock (address accountBlockTemplate))
                    (ledger_getFrontierBlock zenonInstance (address accountBlockTemplate)))
       (\<lambda>frontierAccountBlock.
     let (height0, previousHash0) =
           (case frontierAccountBlock of
              None \<Rightarrow> (1, emptyHash)
            | Some fb \<Rightarrow> (ab_height fb + 1, ab_hash fb)) in
     andThen (assign (\<lambda>t. t\<lparr>height := height0\<rparr>)) (\<lambda>_.
     andThen (assign (\<lambda>t. t\<lparr>previousHash := previousHash0\<rparr>)) (\<lambda>_.
     andThen (await Call_getFrontierMomentum (ledger_getFrontierMomentum zenonInstance))
       (\<lambda>frontierMomentum.
     let momentumAcknowledged0 =
           \<lparr>hh_hash = m_hash frontierMomentum, hh_height = m_height frontierMomentum\<rparr> in
     assign (\<lambda>t. t\<lparr>momentumAcknowledged := momentumAcknowledged0\<rparr>))))))"

definition checkAndSetFields :: "Imports \<Rightarrow> Zenon \<Rightarrow> KeyPair \<Rightarrow> bool Promise" where
  "checkAndSetFields I zenonInstance currentKeyPair =
     andThen (await Call_getAddress (getAddress currentKeyPair)) (\<lambda>a.
     andThen (assign (\<lambda>t. t\<lparr>address := a\<rparr>)) (\<lambda>_.
     andThen (await Call_getPublicKey (getPublicKey currentKeyPair)) (\<lambda>pk.
     andThen (assign (\<lambda>t. t\<lparr>publicKey := pk\<rparr>)) (\<lambda>_.
     andThen (autofillTransactionParameters zenonInstance) (\<lambda>_.
     andThen readTemplate (\<lambda>transaction.
     andThen
       (if isSendBlock I (Some (blockType transaction)) then resolve ()
        else
          if refEqEmptyHash (fromBlockHash transaction) then throw (Error [])
          else
            andThen (await (Call_getBlockByHash (fromBlockHash transaction))
                           (ledger_getBlockByHash zenonInstance (fromBlockHash transaction)))
              (\<lambda>sendBlock.
                 case sendBlock of
                   None \<Rightarrow> throw (Error [])
                 | Some sb \<Rightarrow>
                     if \<not> (Address_toString I (ab_toAddress sb)
                            = Address_toString I (address transaction))
                     then throw (Error [])
                     else if length (data transaction) > 0 then throw (Error [])
                     else resolve ()))
       (\<lambda>_.
     if difficulty transaction > 0 \<and> nonce transaction = [] then throw (Error [])
     else resolve True)))))))"

definition setDifficulty :: "Imports \<Rightarrow> Zenon \<Rightarrow> Function option \<Rightarrow> bool \<Rightarrow> bool Promise" where
  "setDifficulty I zenonInstance generatingPowCallback waitForRequiredPlasma =
     andThen readTemplate (\<lambda>transaction.
     let powParam = \<lparr>gp_address = address transaction, gp_blockType = blockType transaction,
                      gp_toAddress = toAddress transaction, gp_data = data transaction\<rparr> in
     andThen (await (Call_getRequiredPoWForAccountBlock powParam)
                    (plasma_getRequiredPoWForAccountBlock zenonInstance powParam))
       (\<lambda>response.
     if requiredDifficulty response \<noteq> 0 then
       andThen (assign (\<lambda>t. t\<lparr>fusedPlasma := availablePlasma response\<rparr>)) (\<lambda>_.
       andThen (assign (\<lambda>t. t\<lparr>difficulty := requiredDifficulty response\<rparr>)) (\<lambda>_.
       andThen readTemplate (\<lambda>transaction1.
       let powData = getPoWData I transaction1 in
       andThen (optionalCall generatingPowCallback PowStatus_generating) (\<lambda>_.
       andThen (await (Call_generatePoW powData (difficulty transaction1))
                      (generatePoW I powData (difficulty transaction1)))
         (\<lambda>n.
       andThen (assign (\<lambda>t. t\<lparr>nonce := n\<rparr>)) (\<lambda>_.
       andThen (optionalCall generatingPowCallback PowStatus_done) (\<lambda>_.
       resolve True)))))))
     else
       andThen (assign (\<lambda>t. t\<lparr>fusedPlasma := basePlasma response\<rparr>)) (\<lambda>_.
       andThen (assign (\<lambda>t. t\<lparr>difficulty := 0\<rparr>)) (\<lambda>_.
       andThen (assign (\<lambda>t. t\<lparr>nonce := ''0000000000000000''\<rparr>)) (\<lambda>_.
       resolve True)))))"

definition setHashAndSignature :: "Imports \<Rightarrow> KeyPair \<Rightarrow> bool Promise" where
  "setHashAndSignature I currentKeyPair =
     andThen readTemplate (\<lambda>transaction.
     andThen (assign (\<lambda>t. t\<lparr>hash := getTransactionHash I transaction\<rparr>)) (\<lambda>_.
     andThen readTemplate (\<lambda>transaction1.
     andThen (getTransactionSignature currentKeyPair transaction1) (\<lambda>transSig.
     andThen (assign (\<lambda>t. t\<lparr>signature := transSig\<rparr>)) (\<lambda>_.
     resolve True)))))"

definition send ::
  "Imports \<Rightarrow> Zenon \<Rightarrow> KeyPair \<Rightarrow> Function option \<Rightarrow> bool \<Rightarrow> AccountBlockTemplate Promise" where
  "send I zenonInstance currentKeyPair generatingPowCallback waitForRequiredPlasma =
     andThen (checkAndSetFields I zenonInstance currentKeyPair) (\<lambda>_.
     andThen (setDifficulty I zenonInstance generatingPowCallback waitForRequiredPlasma) (\<lambda>_.
     andThen (setHashAndSignature I currentKeyPair) (\<lambda>_.
     andThen readTemplate (\<lambda>transaction.
     andThen (await (Call_publishRawTransaction transaction)
                    (ledger_publishRawTransaction zenonInstance transaction)) (\<lambda>_.
     readTemplate)))))"

text \<open>Starting a run on a template, with no call made yet.\<close>

definition start :: "AccountBlockTemplate \<Rightarrow> Run" where
  "start t = \<lparr>template = t, calls = []\<rparr>"

section \<open>Vocabulary for stating the properties\<close>

text \<open>The \<open>len\<close> bytes of a buffer from offset \<open>off\<close> on.\<close>

definition bytesAt :: "nat \<Rightarrow> nat \<Rightarrow> Buffer \<Rightarrow> Buffer" where
  "bytesAt off len b = take len (drop off b)"

text \<open>
  The byte fields of a template have the widths of the data model: hashes and digests
  of 32 bytes, the acknowledged momentum in 32 bytes, addresses of 20 bytes, and a
  nonce text that decodes to at most 8 bytes.
\<close>

definition wellSized :: "Imports \<Rightarrow> AccountBlockTemplate \<Rightarrow> bool" where
  "wellSized I t =
     (length (Hash_getBytes (previousHash t)) = 32
      \<and> length (HashHeight_getBytes I (momentumAcknowledged t)) = 32
      \<and> length (Address_getBytes (address t)) = 20
      \<and> length (Address_getBytes (toAddress t)) = 20
      \<and> length (hash_core (fromBlockHash t)) = 32
      \<and> length (digestBytes I []) = 32
      \<and> length (digestBytes I (data t)) = 32
      \<and> length (Buffer_from_hex (nonce t)) \<le> 8)"

text \<open>An integer that fits an unsigned 64-bit field.\<close>

definition isUint64 :: "int \<Rightarrow> bool" where
  "isUint64 v = (0 \<le> v \<and> v < 2 ^ 64)"

text \<open>
  A fully populated template: byte fields of their widths, the integer fields within
  64 bits, and an amount that an unsigned 32-byte field can hold.
\<close>

definition fullyPopulated :: "Imports \<Rightarrow> AccountBlockTemplate \<Rightarrow> bool" where
  "fullyPopulated I t =
     (wellSized I t
      \<and> isUint64 (version t) \<and> isUint64 (chainIdentifier t) \<and> isUint64 (blockType t)
      \<and> isUint64 (height t) \<and> isUint64 (fusedPlasma t) \<and> isUint64 (difficulty t)
      \<and> 0 \<le> amount t \<and> amount t < 2 ^ 256)"

text \<open>
  A lower-case hex digit, and the canonical spelling of a nonce: sixteen of them.
\<close>

definition lowerHexChar :: "char \<Rightarrow> bool" where
  "lowerHexChar c =
     (let n = (of_char c :: nat) in (48 \<le> n \<and> n \<le> 57) \<or> (97 \<le> n \<and> n \<le> 102))"

definition canonicalNonce :: "string \<Rightarrow> bool" where
  "canonicalNonce n = (length n = 16 \<and> list_all lowerHexChar n)"

text \<open>
  A canonical template: byte fields of their widths, the integer fields within 64
  bits, the amount within the signed 256-bit range of the data model, and the nonce in
  its canonical spelling.
\<close>

definition canonical :: "Imports \<Rightarrow> AccountBlockTemplate \<Rightarrow> bool" where
  "canonical I t =
     (wellSized I t
      \<and> isUint64 (version t) \<and> isUint64 (chainIdentifier t) \<and> isUint64 (blockType t)
      \<and> isUint64 (height t) \<and> isUint64 (fusedPlasma t) \<and> isUint64 (difficulty t)
      \<and> - (2 ^ 255) \<le> amount t \<and> amount t < 2 ^ 255
      \<and> canonicalNonce (nonce t))"

text \<open>What the encoder reads of a template.\<close>

definition encodedFields ::
  "Imports \<Rightarrow> AccountBlockTemplate \<Rightarrow>
     (int \<times> int \<times> int \<times> Buffer \<times> int \<times> Buffer) \<times> (Buffer \<times> Buffer \<times> int \<times> Buffer \<times> Buffer)
       \<times> (Buffer \<times> int \<times> int \<times> string)" where
  "encodedFields I t =
     ((version t, chainIdentifier t, blockType t, Hash_getBytes (previousHash t), height t,
       HashHeight_getBytes I (momentumAcknowledged t)),
      (Address_getBytes (address t), Address_getBytes (toAddress t), amount t,
       TokenStandard_getBytes (tokenStandard t), hash_core (fromBlockHash t)),
      (digestBytes I (data t), fusedPlasma t, difficulty t, nonce t))"

text \<open>The template after the first two steps of the validation gate and the autofill.\<close>

definition linked ::
  "AccountBlockTemplate \<Rightarrow> Address \<Rightarrow> Buffer \<Rightarrow> AccountBlock option \<Rightarrow> Momentum
     \<Rightarrow> AccountBlockTemplate" where
  "linked t a pk fr mo =
     t\<lparr>address := a, publicKey := pk,
       height := (case fr of None \<Rightarrow> 1 | Some fb \<Rightarrow> ab_height fb + 1),
       previousHash := (case fr of None \<Rightarrow> emptyHash | Some fb \<Rightarrow> ab_hash fb),
       momentumAcknowledged := \<lparr>hh_hash = m_hash mo, hh_height = m_height mo\<rparr>\<rparr>"

definition linkageCalls :: "Address \<Rightarrow> event list" where
  "linkageCalls a =
     [Call_getAddress, Call_getPublicKey, Call_getFrontierBlock a, Call_getFrontierMomentum]"

text \<open>The last check of the validation gate.\<close>

definition difficultyGuard :: "AccountBlockTemplate \<Rightarrow> error + bool" where
  "difficultyGuard t = (if difficulty t > 0 \<and> nonce t = [] then Inl (Error []) else Inr True)"









section \<open>Sample collaborators and a sample template\<close>

text \<open>
  Small stand-ins on which the definitions can be run: a digest that only looks at the
  length of its input (32 bytes long, not a cryptographic hash), an address text made
  of the prefix and one character per byte, a solver that answers at once, key material
  that signs by returning its input, and a ledger without blocks for the account.
\<close>

definition sampleAddress :: Address where
  "sampleAddress = \<lparr>hrp = ''z'', core = [0,0,0,0,0,0,0,0,0,0,0,0,0,0,0,0,0,0,0,1]\<rparr>"

definition sampleToAddress :: Address where
  "sampleToAddress = \<lparr>hrp = ''z'', core = [0,0,0,0,0,0,0,0,0,0,0,0,0,0,0,0,0,0,0,2]\<rparr>"

definition sampleImports :: Imports where
  "sampleImports =
     \<lparr>digestBytes = (\<lambda>b. toBytesBE 32 (int (length b))),
      HashHeight_getBytes = (\<lambda>hh. toBytesBE 32 (fromBytesBE (hash_core (hh_hash hh)) + hh_height hh)),
      Address_toString = (\<lambda>a. hrp a @ map (\<lambda>b. char_of (unat b)) (core a)),
      generatePoW = (\<lambda>h d. Inr ''00000000000000ab''),
      userSend = 2, contractSend = 4, userReceive = 3, genesisReceive = 1,
      contractReceive = 5\<rparr>"

definition sampleKeyPair :: KeyPair where
  "sampleKeyPair =
     \<lparr>getAddress = Inr sampleAddress, getPublicKey = Inr [1, 2, 3], sign = (\<lambda>b. Inr b)\<rparr>"

definition sampleMomentum :: Momentum where
  "sampleMomentum = \<lparr>m_hash = \<lparr>hash_core = replicate 32 7, isEmptyHashObject = False\<rparr>,
                      m_height = 10\<rparr>"

definition sampleResponse :: GetRequiredResponse where
  "sampleResponse = \<lparr>availablePlasma = 0, basePlasma = 21000, requiredDifficulty = 0\<rparr>"

definition sampleZenon :: Zenon where
  "sampleZenon =
     \<lparr>ledger_getFrontierBlock = (\<lambda>a. Inr None),
      ledger_getFrontierMomentum = Inr sampleMomentum,
      ledger_getBlockByHash = (\<lambda>h. Inr None),
      ledger_publishRawTransaction = (\<lambda>t. Inr ()),
      plasma_getRequiredPoWForAccountBlock = (\<lambda>p. Inr sampleResponse)\<rparr>"


text \<open>A send of 100 units from the sample account, as a caller would set it up.\<close>

definition sampleTemplate :: AccountBlockTemplate where
  "sampleTemplate =
     \<lparr>version = 1, chainIdentifier = 1, blockType = 2,
      hash = emptyHash, previousHash = emptyHash, height = 0,
      momentumAcknowledged = \<lparr>hh_hash = emptyHash, hh_height = 0\<rparr>,
      address = sampleAddress, toAddress = sampleToAddress, amount = 100,
      tokenStandard = \<lparr>ts_core = [0,0,0,0,0,0,0,0,0,0]\<rparr>,
      fromBlockHash = emptyHash, data = [],
      fusedPlasma = 0, difficulty = 0, nonce = ''0000000000000000'',
      publicKey = [], signature = []\<rparr>"

text \<open>
  A receive of the sample account: a send block addressed to it that the ledger can
  resolve, a ledger that resolves every hash to it, and a quota answer that asks for
  proof-of-work.
\<close>

definition sampleSendBlock :: AccountBlock where
  "sampleSendBlock = \<lparr>ab_hash = \<lparr>hash_core = replicate 32 5, isEmptyHashObject = False\<rparr>,
                       ab_height = 3, ab_toAddress = sampleAddress\<rparr>"

definition sampleZenonResolving :: Zenon where
  "sampleZenonResolving =
     sampleZenon\<lparr>ledger_getBlockByHash := (\<lambda>h. Inr (Some sampleSendBlock))\<rparr>"

definition sampleZenonPow :: Zenon where
  "sampleZenonPow =
     sampleZenon\<lparr>plasma_getRequiredPoWForAccountBlock :=
       (\<lambda>p. Inr \<lparr>availablePlasma = 0, basePlasma = 21000, requiredDifficulty = 5\<rparr>)\<rparr>"

definition sampleReceive :: AccountBlockTemplate where
  "sampleReceive =
     sampleTemplate\<lparr>blockType := 3, toAddress := sampleAddress, amount := 0,
       fromBlockHash := \<lparr>hash_core = replicate 32 5, isEmptyHashObject = False\<rparr>\<rparr>"

text \<open>
  A \<open>Hash\<close> object with the bytes of the sentinel that is not the object \<open>emptyHash\<close>,
  as parsing the text of the all-zero hash gives.
\<close>

definition zeroHashCopy :: Hash where
  "zeroHashCopy = \<lparr>hash_core = replicate 32 0, isEmptyHashObject = False\<rparr>"








section \<open>Properties of the byte helpers\<close>

lemma length_toBytesBE: "length (toBytesBE n v) = n"
  by (induction n arbitrary: v) simp_all

lemma fromBytesBE_acc_append:
  "fromBytesBE_acc acc (xs @ ys) = fromBytesBE_acc (fromBytesBE_acc acc xs) ys"
  by (induction xs arbitrary: acc) simp_all

lemma uint_byte_of_mod: "uint (word_of_int (v mod 256) :: byte) = v mod 256"
  by (simp add: uint_word_of_int)

lemma fromBytesBE_acc_toBytesBE:
  "fromBytesBE_acc acc (toBytesBE n v) = acc * 256 ^ n + v mod 256 ^ n"
proof (induction n arbitrary: v acc)
  case 0
  show ?case by simp
next
  case (Suc n)
  have split: "v mod (256 * 256 ^ n) = 256 * ((v div 256) mod 256 ^ n) + v mod 256"
    using zmod_zmult2_eq [of "256 ^ n" v 256] by simp
  show ?case
    by (simp add: fromBytesBE_acc_append Suc.IH uint_byte_of_mod split algebra_simps)
qed

lemma fromBytesBE_toBytesBE: "fromBytesBE (toBytesBE n v) = v mod 256 ^ n"
  by (simp add: fromBytesBE_def fromBytesBE_acc_toBytesBE)

lemma fromBytesBE_toBytesBE_id:
  "0 \<le> v \<Longrightarrow> v < 256 ^ n \<Longrightarrow> fromBytesBE (toBytesBE n v) = v"
  by (simp add: fromBytesBE_toBytesBE)

section \<open>Running the steps\<close>

named_theorems run_simps

lemma resolve_apply [run_simps]: "resolve x s = (Inr x, s)"
  by (simp add: resolve_def)

lemma throw_apply [run_simps]: "throw e s = (Inl e, s)"
  by (simp add: throw_def)

lemma await_apply [run_simps]: "await ev answer s = (answer, s\<lparr>calls := calls s @ [ev]\<rparr>)"
  by (simp add: await_def)

lemma readTemplate_apply [run_simps]: "readTemplate s = (Inr (template s), s)"
  by (simp add: readTemplate_def)

lemma assign_apply [run_simps]: "assign f s = (Inr (), s\<lparr>template := f (template s)\<rparr>)"
  by (simp add: assign_def)

lemma andThen_Inr: "m s = (Inr x, s') \<Longrightarrow> andThen m f s = f x s'"
  by (simp add: andThen_def)

lemma andThen_Inl: "m s = (Inl e, s') \<Longrightarrow> andThen m f s = (Inl e, s')"
  by (simp add: andThen_def)

lemma andThen_resolve [run_simps]: "andThen (resolve x) f s = f x s"
  by (simp add: andThen_def resolve_def)

lemma andThen_throw [run_simps]: "andThen (throw e) f s = (Inl e, s)"
  by (simp add: andThen_def throw_def)

lemma andThen_await_Inr [run_simps]:
  "andThen (await ev (Inr v)) f s = f v (s\<lparr>calls := calls s @ [ev]\<rparr>)"
  by (simp add: andThen_def await_def)

lemma andThen_await_Inl [run_simps]:
  "andThen (await ev (Inl e)) f s = (Inl e, s\<lparr>calls := calls s @ [ev]\<rparr>)"
  by (simp add: andThen_def await_def)

lemma andThen_readTemplate [run_simps]: "andThen readTemplate f s = f (template s) s"
  by (simp add: andThen_def readTemplate_def)

lemma andThen_assign [run_simps]:
  "andThen (assign g) f s = f () (s\<lparr>template := g (template s)\<rparr>)"
  by (simp add: andThen_def assign_def)

lemma andThen_andThen [run_simps]:
  "andThen (andThen m f) g s = andThen m (\<lambda>x. andThen (f x) g) s"
  by (simp add: andThen_def split: prod.splits sum.splits)

lemma andThen_if [run_simps]:
  "andThen (if c then a else b) f s = (if c then andThen a f s else andThen b f s)"
  by simp

lemma andThen_optionalCall_None [run_simps]: "andThen (optionalCall None status) f s = f () s"
  by (simp add: optionalCall_def andThen_def resolve_def)

lemma andThen_optionalCall_Some [run_simps]:
  "andThen (optionalCall (Some g) status) f s =
     andThen (await (Call_generatingPowCallback status []) (g status [])) f s"
  by (simp add: optionalCall_def)

lemma autofill_run:
  assumes "ledger_getFrontierBlock z (address t) = Inr fr"
    and "ledger_getFrontierMomentum z = Inr mo"
  shows "autofillTransactionParameters z \<lparr>template = t, calls = cs\<rparr> =
     (Inr (),
      \<lparr>template = t\<lparr>height := (case fr of None \<Rightarrow> 1 | Some fb \<Rightarrow> ab_height fb + 1),
                     previousHash := (case fr of None \<Rightarrow> emptyHash | Some fb \<Rightarrow> ab_hash fb),
                     momentumAcknowledged := \<lparr>hh_hash = m_hash mo, hh_height = m_height mo\<rparr>\<rparr>,
       calls = cs @ [Call_getFrontierBlock (address t), Call_getFrontierMomentum]\<rparr>)"
  using assms
  by (cases fr) (simp_all add: autofillTransactionParameters_def run_simps)

lemma autofill_frame:
  "template (snd (autofillTransactionParameters z s)) =
     (template s)\<lparr>height := height (template (snd (autofillTransactionParameters z s))),
                  previousHash := previousHash (template (snd (autofillTransactionParameters z s))),
                  momentumAcknowledged := momentumAcknowledged (template (snd (autofillTransactionParameters z s)))\<rparr>"
proof (cases "ledger_getFrontierBlock z (address (template s))")
  case (Inl e)
  then show ?thesis
    by (simp add: autofillTransactionParameters_def run_simps)
next
  case (Inr fr)
  then show ?thesis
    by (cases fr; cases "ledger_getFrontierMomentum z")
       (simp_all add: autofillTransactionParameters_def run_simps)
qed

lemma checkAndSetFields_run:
  assumes "getAddress kp = Inr a" and "getPublicKey kp = Inr pk"
    and "ledger_getFrontierBlock z a = Inr fr"
    and "ledger_getFrontierMomentum z = Inr mo"
  shows "checkAndSetFields I z kp (start t) =
    (if isSendBlock I (Some (blockType t)) then
       (difficultyGuard t, \<lparr>template = linked t a pk fr mo, calls = linkageCalls a\<rparr>)
     else if refEqEmptyHash (fromBlockHash t) then
       (Inl (Error []), \<lparr>template = linked t a pk fr mo, calls = linkageCalls a\<rparr>)
     else
       ((case ledger_getBlockByHash z (fromBlockHash t) of
           Inl e \<Rightarrow> Inl e
         | Inr None \<Rightarrow> Inl (Error [])
         | Inr (Some sb) \<Rightarrow>
             if Address_toString I (ab_toAddress sb) \<noteq> Address_toString I a then Inl (Error [])
             else if data t \<noteq> [] then Inl (Error [])
             else difficultyGuard t),
        \<lparr>template = linked t a pk fr mo,
         calls = linkageCalls a @ [Call_getBlockByHash (fromBlockHash t)]\<rparr>))"
proof -
  have auto_fill: "autofillTransactionParameters z
      \<lparr>template = t\<lparr>address := a, publicKey := pk\<rparr>, calls = [Call_getAddress, Call_getPublicKey]\<rparr> =
     (Inr (), \<lparr>template = linked t a pk fr mo, calls = linkageCalls a\<rparr>)"
    using autofill_run [of z "t\<lparr>address := a, publicKey := pk\<rparr>" fr mo "[Call_getAddress, Call_getPublicKey]"] assms
    by (simp add: linked_def linkageCalls_def)
  show ?thesis
  proof (cases "ledger_getBlockByHash z (fromBlockHash t)")
    case (Inl e)
    then show ?thesis
      by (simp add: checkAndSetFields_def run_simps start_def assms andThen_Inr [where m = "autofillTransactionParameters z", OF auto_fill]
          difficultyGuard_def linked_def)
  next
    case (Inr sendBlock)
    then show ?thesis
      by (cases sendBlock)
         (simp_all add: checkAndSetFields_def run_simps start_def assms
            andThen_Inr [where m = "autofillTransactionParameters z", OF auto_fill] difficultyGuard_def linked_def)
  qed
qed

































lemma isSendBlock_iff:
  "isSendBlock I bt = (bt = Some (userSend I) \<or> bt = Some (contractSend I))"
  by (auto simp add: isSendBlock_def)

lemma send_block_skips_receive_rules:
  assumes "getAddress currentKeyPair = Inr a"
    and "getPublicKey currentKeyPair = Inr pk"
    and "ledger_getFrontierBlock zenonInstance a = Inr frontier"
    and "ledger_getFrontierMomentum zenonInstance = Inr momentum"
    and "isSendBlock I (Some (blockType t))"
  shows "checkAndSetFields I zenonInstance currentKeyPair (start t) =
     (difficultyGuard t,
      \<lparr>template = linked t a pk frontier momentum, calls = linkageCalls a\<rparr>)"
  using checkAndSetFields_run [OF assms(1-4), of I t] assms(5) by simp

lemma sample_key_and_linkage:
  "getAddress sampleKeyPair = Inr sampleAddress"
  "getPublicKey sampleKeyPair = Inr [1, 2, 3]"
  "ledger_getFrontierBlock sampleZenon sampleAddress = Inr None"
  "ledger_getFrontierMomentum sampleZenon = Inr sampleMomentum"
  "ledger_getFrontierBlock sampleZenonResolving sampleAddress = Inr None"
  "ledger_getFrontierMomentum sampleZenonResolving = Inr sampleMomentum"
  "ledger_getFrontierBlock sampleZenonPow sampleAddress = Inr None"
  "ledger_getFrontierMomentum sampleZenonPow = Inr sampleMomentum"
  by (simp_all add: sampleKeyPair_def sampleZenon_def sampleZenonResolving_def sampleZenonPow_def)

lemma sample_lookups:
  "ledger_getBlockByHash sampleZenon h = Inr None"
  "ledger_getBlockByHash sampleZenonResolving h = Inr (Some sampleSendBlock)"
  by (simp_all add: sampleZenon_def sampleZenonResolving_def)

lemma sampleReceive_not_send: "\<not> isSendBlock sampleImports (Some (blockType (sampleReceive\<lparr>fromBlockHash := h, data := d\<rparr>)))"
  by (simp add: isSendBlock_iff sampleReceive_def sampleImports_def)

lemma sampleTemplate_send: "isSendBlock sampleImports (Some (blockType (sampleTemplate\<lparr>difficulty := x, nonce := n\<rparr>)))"
  by (simp add: isSendBlock_iff sampleTemplate_def sampleImports_def)

lemma send_aborts_with_gate:
  "checkAndSetFields I z kp s = (Inl e, s1) \<Longrightarrow> send I z kp cb w s = (Inl e, s1)"
  by (simp add: send_def andThen_Inl)






















section \<open>Properties of the encoder\<close>

lemma bytesAt_here: "length a = n \<Longrightarrow> bytesAt 0 n (a @ r) = a"
  by (simp add: bytesAt_def)

lemma bytesAt_skip: "length a \<le> off \<Longrightarrow> bytesAt off n (a @ r) = bytesAt (off - length a) n r"
  by (simp add: bytesAt_def)

lemma bytesAt_all: "length a = n \<Longrightarrow> bytesAt 0 n a = a"
  by (simp add: bytesAt_def)

lemma length_longToBytes: "length (longToBytes v) = 8"
  by (simp add: longToBytes_def length_toBytesBE)

lemma length_numberToBytes: "length (numberToBytes v n) = n"
  by (simp add: numberToBytes_def length_toBytesBE)

lemma length_leftPadBytes: "length b \<le> n \<Longrightarrow> length (leftPadBytes b n) = n"
  by (simp add: leftPadBytes_def)

lemma source_as_append:
  "getTransactionHash_source I t =
     longToBytes (version t) @ longToBytes (chainIdentifier t) @ longToBytes (blockType t)
     @ Hash_getBytes (previousHash t) @ longToBytes (height t)
     @ HashHeight_getBytes I (momentumAcknowledged t)
     @ Address_getBytes (address t) @ Address_getBytes (toAddress t)
     @ numberToBytes (amount t) 32 @ TokenStandard_getBytes (tokenStandard t)
     @ hash_core (fromBlockHash t) @ digestBytes I [] @ digestBytes I (data t)
     @ longToBytes (fusedPlasma t) @ longToBytes (difficulty t)
     @ leftPadBytes (Buffer_from_hex (nonce t)) 8"
  by (simp add: getTransactionHash_source_def Hash_digest_def Hash_getBytes_def)

lemmas field_lengths = length_longToBytes length_numberToBytes length_leftPadBytes

lemma source_fields:
  assumes "wellSized I t"
  defines "w \<equiv> length (TokenStandard_getBytes (tokenStandard t))"
  defines "src \<equiv> getTransactionHash_source I t"
  shows "length src = 288 + w"
    and "bytesAt 0 8 src = longToBytes (version t)"
    and "bytesAt 8 8 src = longToBytes (chainIdentifier t)"
    and "bytesAt 16 8 src = longToBytes (blockType t)"
    and "bytesAt 24 32 src = Hash_getBytes (previousHash t)"
    and "bytesAt 56 8 src = longToBytes (height t)"
    and "bytesAt 64 32 src = HashHeight_getBytes I (momentumAcknowledged t)"
    and "bytesAt 96 20 src = Address_getBytes (address t)"
    and "bytesAt 116 20 src = Address_getBytes (toAddress t)"
    and "bytesAt 136 32 src = numberToBytes (amount t) 32"
    and "bytesAt 168 w src = TokenStandard_getBytes (tokenStandard t)"
    and "bytesAt (168 + w) 32 src = hash_core (fromBlockHash t)"
    and "bytesAt (200 + w) 32 src = digestBytes I []"
    and "bytesAt (232 + w) 32 src = digestBytes I (data t)"
    and "bytesAt (264 + w) 8 src = longToBytes (fusedPlasma t)"
    and "bytesAt (272 + w) 8 src = longToBytes (difficulty t)"
    and "bytesAt (280 + w) 8 src = leftPadBytes (Buffer_from_hex (nonce t)) 8"
  using assms(1) unfolding wellSized_def src_def w_def source_as_append
  by (simp_all add: bytesAt_skip bytesAt_here bytesAt_all field_lengths)

lemma fromBytesBE_longToBytes: "isUint64 v \<Longrightarrow> fromBytesBE (longToBytes v) = v"
  by (simp add: isUint64_def longToBytes_def fromBytesBE_toBytesBE)

lemma fromBytesBE_numberToBytes:
  "0 \<le> v \<Longrightarrow> v < 2 ^ 256 \<Longrightarrow> fromBytesBE (numberToBytes v 32) = v"
  by (simp add: numberToBytes_def fromBytesBE_toBytesBE)

lemma sampleTemplate_fullyPopulated: "fullyPopulated sampleImports sampleTemplate"
  by (simp add: fullyPopulated_def wellSized_def isUint64_def sampleTemplate_def
      sampleImports_def emptyHash_def sampleAddress_def sampleToAddress_def Hash_getBytes_def
      Address_getBytes_def length_toBytesBE hexDigit_def)

lemma sampleTemplate_wellSized: "wellSized sampleImports (sampleTemplate\<lparr>amount := v\<rparr>)"
  using sampleTemplate_fullyPopulated
  by (simp add: fullyPopulated_def wellSized_def)

lemma hexDigit_lower:
  assumes "lowerHexChar c"
  shows "\<exists>x<16. hexDigit c = Some x"
  using assms by (auto simp add: lowerHexChar_def hexDigit_def Let_def)

lemma hexDigit_lower_value:
  "lowerHexChar c \<Longrightarrow>
     hexDigit c = Some (if (of_char c :: nat) \<le> 57 then of_char c - 48 else of_char c - 87)"
  by (auto simp add: lowerHexChar_def hexDigit_def Let_def)

lemma digit_value_inj:
  fixes m n :: nat
  assumes "(48 \<le> m \<and> m \<le> 57) \<or> (97 \<le> m \<and> m \<le> 102)"
    and "(48 \<le> n \<and> n \<le> 57) \<or> (97 \<le> n \<and> n \<le> 102)"
    and "(if m \<le> 57 then m - 48 else m - 87) = (if n \<le> 57 then n - 48 else n - 87)"
  shows "m = n"
  using assms by (cases "m \<le> 57"; cases "n \<le> 57") auto

lemma hexDigit_lower_inj:
  assumes "lowerHexChar c" and "lowerHexChar d" and "hexDigit c = hexDigit d"
  shows "c = d"
proof -
  let ?m = "of_char c :: nat" and ?n = "of_char d :: nat"
  from assms have "(if ?m \<le> 57 then ?m - 48 else ?m - 87) = (if ?n \<le> 57 then ?n - 48 else ?n - 87)"
    by (simp add: hexDigit_lower_value)
  moreover from assms(1,2)
  have "(48 \<le> ?m \<and> ?m \<le> 57) \<or> (97 \<le> ?m \<and> ?m \<le> 102)"
    and "(48 \<le> ?n \<and> ?n \<le> 57) \<or> (97 \<le> ?n \<and> ?n \<le> 102)"
    by (simp_all add: lowerHexChar_def Let_def)
  ultimately have "?m = ?n"
    by (rule digit_value_inj [rotated 2])
  then show ?thesis by simp
qed

lemma hex_byte_inj:
  assumes "x < 16" "y < 16" "x' < 16" "y' < 16"
    and "(of_nat (16 * x + y) :: byte) = of_nat (16 * x' + y')"
  shows "x = x' \<and> y = y'"
proof -
  have small: "16 * x + y < 256" "16 * x' + y' < 256" using assms(1-4) by simp_all
  from assms(5) have "unat (of_nat (16 * x + y) :: byte) = unat (of_nat (16 * x' + y') :: byte)"
    by (rule arg_cong)
  then have "(16 * x + y) mod 2 ^ LENGTH(8) = (16 * x' + y') mod 2 ^ LENGTH(8)"
    by (simp only: unat_of_nat)
  with small have eq: "16 * x + y = 16 * x' + y'" by simp
  then have "(16 * x + y) div 16 = (16 * x' + y') div 16" by (rule arg_cong)
  with assms(2,4) have "x = x'" by simp
  with eq show ?thesis by simp
qed

lemma Buffer_from_hex_lower_inj:
  "list_all lowerHexChar s1 \<Longrightarrow> list_all lowerHexChar s2 \<Longrightarrow> length s1 = length s2
     \<Longrightarrow> even (length s1) \<Longrightarrow> Buffer_from_hex s1 = Buffer_from_hex s2 \<Longrightarrow> s1 = s2"
proof (induction s1 arbitrary: s2 rule: Buffer_from_hex.induct)
  case (1 a b rest)
  from "1.prems"(3) obtain a' b' rest' where s2: "s2 = a' # b' # rest'"
    by (cases s2; cases "tl s2") auto
  from "1.prems"(1) have la: "lowerHexChar a" and lb: "lowerHexChar b"
    and lr: "list_all lowerHexChar rest" by simp_all
  from "1.prems"(2) s2 have la': "lowerHexChar a'" and lb': "lowerHexChar b'"
    and lr': "list_all lowerHexChar rest'" by simp_all
  from hexDigit_lower [OF la] obtain x where x: "x < 16" "hexDigit a = Some x" by blast
  from hexDigit_lower [OF lb] obtain y where y: "y < 16" "hexDigit b = Some y" by blast
  from hexDigit_lower [OF la'] obtain x' where x': "x' < 16" "hexDigit a' = Some x'" by blast
  from hexDigit_lower [OF lb'] obtain y' where y': "y' < 16" "hexDigit b' = Some y'" by blast
  from "1.prems"(5) s2 x y x' y'
  have hd: "(of_nat (16 * x + y) :: byte) = of_nat (16 * x' + y')"
    and tl: "Buffer_from_hex rest = Buffer_from_hex rest'" by simp_all
  from hex_byte_inj [OF x(1) y(1) x'(1) y'(1) hd] have "x = x'" "y = y'" by simp_all
  with x y x' y' have "hexDigit a = hexDigit a'" "hexDigit b = hexDigit b'" by simp_all
  with la lb la' lb' have ab: "a = a'" "b = b'"
    by (simp_all add: hexDigit_lower_inj)
  from "1.prems"(3,4) s2 have "length rest = length rest'" "even (length rest)" by simp_all
  with "1.IH" [OF x(2) y(2) lr lr' _ _ tl] have "rest = rest'" by simp
  with ab s2 show ?case by simp
next
  case (2 a)
  from "2.prems"(4) show ?case by simp
next
  case 3
  from "3.prems"(3) show ?case by simp
qed

lemma length_Buffer_from_hex_lower:
  "list_all lowerHexChar s \<Longrightarrow> length (Buffer_from_hex s) = length s div 2"
proof (induction s rule: Buffer_from_hex.induct)
  case (1 a b rest)
  from "1.prems" have la: "lowerHexChar a" and lb: "lowerHexChar b"
    and lr: "list_all lowerHexChar rest" by simp_all
  from hexDigit_lower [OF la] obtain x where x: "hexDigit a = Some x" by blast
  from hexDigit_lower [OF lb] obtain y where y: "hexDigit b = Some y" by blast
  from "1.IH" [OF x y lr] x y show ?case by simp
qed simp_all

lemma canonicalNonce_inj:
  assumes "canonicalNonce n1" and "canonicalNonce n2"
    and "leftPadBytes (Buffer_from_hex n1) 8 = leftPadBytes (Buffer_from_hex n2) 8"
  shows "n1 = n2"
proof -
  from assms(1,2) have l: "length (Buffer_from_hex n1) = 8" "length (Buffer_from_hex n2) = 8"
    by (simp_all add: canonicalNonce_def length_Buffer_from_hex_lower)
  with assms(3) have "Buffer_from_hex n1 = Buffer_from_hex n2"
    by (simp add: leftPadBytes_def)
  with assms(1,2) show ?thesis
    by (auto simp add: canonicalNonce_def intro: Buffer_from_hex_lower_inj)
qed

lemma toBytesBE_eq_mod:
  "toBytesBE n v = toBytesBE n v' \<Longrightarrow> v mod 256 ^ n = v' mod 256 ^ n"
  using fromBytesBE_toBytesBE [of n v] fromBytesBE_toBytesBE [of n v'] by simp

lemma longToBytes_inj:
  assumes "isUint64 v" and "isUint64 v'" and "longToBytes v = longToBytes v'"
  shows "v = v'"
  using fromBytesBE_longToBytes [OF assms(1)] fromBytesBE_longToBytes [OF assms(2)] assms(3)
  by metis

lemma signed_window_inj:
  fixes v v' h :: int
  assumes "v mod (2 * h) = v' mod (2 * h)"
    and "- h \<le> v" "v < h" "- h \<le> v'" "v' < h"
  shows "v = v'"
proof (rule ccontr)
  assume ne: "v \<noteq> v'"
  from assms(1) have "2 * h dvd v - v'"
    by (simp add: mod_eq_dvd_iff)
  then have d: "2 * h dvd \<bar>v - v'\<bar>" by simp
  from ne have pos: "0 < \<bar>v - v'\<bar>" by simp
  from assms(2-5) have "\<bar>v - v'\<bar> < 2 * h" by linarith
  from zdvd_not_zless [OF pos this] d show False by simp
qed

lemma numberToBytes_signed_inj:
  assumes "- (2 ^ 255) \<le> v" "v < 2 ^ 255" "- (2 ^ 255) \<le> v'" "v' < 2 ^ 255"
    and "numberToBytes v 32 = numberToBytes v' 32"
  shows "v = v'"
proof -
  from assms(5) have "toBytesBE 32 v = toBytesBE 32 v'"
    by (simp add: numberToBytes_def)
  then have m: "v mod 256 ^ 32 = v' mod 256 ^ 32"
    by (rule toBytesBE_eq_mod)
  have p: "(256 :: int) ^ 32 = 2 * 2 ^ 255" by simp
  from m have "v mod (2 * 2 ^ 255) = v' mod (2 * 2 ^ 255)"
    unfolding p .
  from signed_window_inj [OF this assms(1-4)] show ?thesis .
qed

lemma source_determined_by_fields:
  "encodedFields I t1 = encodedFields I t2 \<Longrightarrow>
     getTransactionHash_source I t1 = getTransactionHash_source I t2"
  by (simp add: encodedFields_def source_as_append)

lemma hash_determined_by_fields:
  "encodedFields I t1 = encodedFields I t2 \<Longrightarrow> getTransactionHash I t1 = getTransactionHash I t2"
  using source_determined_by_fields [of I t1 t2] by (simp add: getTransactionHash_def)

lemma fields_determined_by_source:
  assumes c1: "canonical I t1" and c2: "canonical I t2"
    and w: "length (TokenStandard_getBytes (tokenStandard t1))
          = length (TokenStandard_getBytes (tokenStandard t2))"
    and eq: "getTransactionHash_source I t1 = getTransactionHash_source I t2"
  shows "encodedFields I t1 = encodedFields I t2"
proof -
  from c1 have ws1: "wellSized I t1" by (simp add: canonical_def)
  from c2 have ws2: "wellSized I t2" by (simp add: canonical_def)
  note a = source_fields [OF ws1]
  note b = source_fields [OF ws2, folded w eq]
  have "longToBytes (version t1) = longToBytes (version t2)" using a(2) b(2) by simp
  with c1 c2 have f1: "version t1 = version t2"
    by (intro longToBytes_inj) (simp_all add: canonical_def)
  have "longToBytes (chainIdentifier t1) = longToBytes (chainIdentifier t2)"
    using a(3) b(3) by simp
  with c1 c2 have f2: "chainIdentifier t1 = chainIdentifier t2"
    by (intro longToBytes_inj) (simp_all add: canonical_def)
  have "longToBytes (blockType t1) = longToBytes (blockType t2)" using a(4) b(4) by simp
  with c1 c2 have f3: "blockType t1 = blockType t2"
    by (intro longToBytes_inj) (simp_all add: canonical_def)
  have f4: "Hash_getBytes (previousHash t1) = Hash_getBytes (previousHash t2)"
    using a(5) b(5) by simp
  have "longToBytes (height t1) = longToBytes (height t2)" using a(6) b(6) by simp
  with c1 c2 have f5: "height t1 = height t2"
    by (intro longToBytes_inj) (simp_all add: canonical_def)
  have f6: "HashHeight_getBytes I (momentumAcknowledged t1)
      = HashHeight_getBytes I (momentumAcknowledged t2)"
    using a(7) b(7) by simp
  have f7: "Address_getBytes (address t1) = Address_getBytes (address t2)"
    using a(8) b(8) by simp
  have f8: "Address_getBytes (toAddress t1) = Address_getBytes (toAddress t2)"
    using a(9) b(9) by simp
  have "numberToBytes (amount t1) 32 = numberToBytes (amount t2) 32"
    using a(10) b(10) by simp
  with c1 c2 have f9: "amount t1 = amount t2"
    by (intro numberToBytes_signed_inj) (simp_all add: canonical_def)
  have f10: "TokenStandard_getBytes (tokenStandard t1) = TokenStandard_getBytes (tokenStandard t2)"
    using a(11) b(11) by simp
  have f11: "hash_core (fromBlockHash t1) = hash_core (fromBlockHash t2)"
    using a(12) b(12) by simp
  have f12: "digestBytes I (data t1) = digestBytes I (data t2)"
    using a(14) b(14) by simp
  have "longToBytes (fusedPlasma t1) = longToBytes (fusedPlasma t2)"
    using a(15) b(15) by simp
  with c1 c2 have f13: "fusedPlasma t1 = fusedPlasma t2"
    by (intro longToBytes_inj) (simp_all add: canonical_def)
  have "longToBytes (difficulty t1) = longToBytes (difficulty t2)"
    using a(16) b(16) by simp
  with c1 c2 have f14: "difficulty t1 = difficulty t2"
    by (intro longToBytes_inj) (simp_all add: canonical_def)
  have "leftPadBytes (Buffer_from_hex (nonce t1)) 8 = leftPadBytes (Buffer_from_hex (nonce t2)) 8"
    using a(17) b(17) by simp
  with c1 c2 have f15: "nonce t1 = nonce t2"
    by (intro canonicalNonce_inj) (simp_all add: canonical_def)
  show ?thesis
    by (simp add: encodedFields_def f1 f2 f3 f4 f5 f6 f7 f8 f9 f10 f11 f12 f13 f14 f15)
qed

lemma nonce_case_collision:
  "getTransactionHash_source I (t\<lparr>nonce := ''00000000000000AB''\<rparr>)
     = getTransactionHash_source I (t\<lparr>nonce := ''00000000000000ab''\<rparr>)"
  by (simp add: source_as_append hexDigit_def)

lemma sampleTemplate_canonical:
  "canonical sampleImports (sampleTemplate\<lparr>publicKey := k\<rparr>)"
  "canonical sampleImports (sampleTemplate\<lparr>nonce := ''00000000000000ab''\<rparr>)"
  by (simp_all add: canonical_def wellSized_def isUint64_def canonicalNonce_def lowerHexChar_def
      sampleTemplate_def sampleImports_def emptyHash_def sampleAddress_def sampleToAddress_def
      Hash_getBytes_def Address_getBytes_def length_toBytesBE hexDigit_def)

section \<open>The canonical encoding\<close>

text \<open>
  Claim C1. For a fully populated template, the hash returned by
  \<open>getTransactionHash\<close> is the digest of a byte sequence of 288 bytes plus the width
  of the token standard, which holds, in this order: \<open>version\<close>, \<open>chainIdentifier\<close>
  and \<open>blockType\<close> as 8-byte big-endian integers; the 32 bytes of \<open>previousHash\<close>;
  \<open>height\<close> in 8 bytes; the 32 bytes of \<open>momentumAcknowledged\<close>; the 20 bytes of
  \<open>address\<close> and of \<open>toAddress\<close>; \<open>amount\<close> as a 32-byte big-endian integer; the
  bytes of \<open>tokenStandard\<close>; the 32 bytes of \<open>fromBlockHash\<close>; the digest of the empty
  byte sequence; the digest of \<open>data\<close>; \<open>fusedPlasma\<close> and \<open>difficulty\<close> in 8 bytes
  each; and the decoded nonce, padded with zero bytes on the left to 8 bytes.
\<close>

theorem getTransactionHash_layout:
  assumes "fullyPopulated I t"
  shows "(let src = getTransactionHash_source I t;
              w = length (TokenStandard_getBytes (tokenStandard t))
          in getTransactionHash I t = Hash_digest I src
           \<and> length src = 288 + w
           \<and> fromBytesBE (bytesAt 0 8 src) = version t
           \<and> fromBytesBE (bytesAt 8 8 src) = chainIdentifier t
           \<and> fromBytesBE (bytesAt 16 8 src) = blockType t
           \<and> bytesAt 24 32 src = Hash_getBytes (previousHash t)
           \<and> fromBytesBE (bytesAt 56 8 src) = height t
           \<and> bytesAt 64 32 src = HashHeight_getBytes I (momentumAcknowledged t)
           \<and> bytesAt 96 20 src = Address_getBytes (address t)
           \<and> bytesAt 116 20 src = Address_getBytes (toAddress t)
           \<and> fromBytesBE (bytesAt 136 32 src) = amount t
           \<and> bytesAt 168 w src = TokenStandard_getBytes (tokenStandard t)
           \<and> bytesAt (168 + w) 32 src = hash_core (fromBlockHash t)
           \<and> bytesAt (200 + w) 32 src = Hash_getBytes (Hash_digest I [])
           \<and> bytesAt (232 + w) 32 src = Hash_getBytes (Hash_digest I (data t))
           \<and> fromBytesBE (bytesAt (264 + w) 8 src) = fusedPlasma t
           \<and> fromBytesBE (bytesAt (272 + w) 8 src) = difficulty t
           \<and> bytesAt (280 + w) 8 src =
               replicate (8 - length (Buffer_from_hex (nonce t))) 0 @ Buffer_from_hex (nonce t))"
proof -
  from assms have ws: "wellSized I t"
    and u: "isUint64 (version t)" "isUint64 (chainIdentifier t)" "isUint64 (blockType t)"
      "isUint64 (height t)" "isUint64 (fusedPlasma t)" "isUint64 (difficulty t)"
    and am: "0 \<le> amount t" "amount t < 2 ^ 256"
    by (simp_all add: fullyPopulated_def)
  note sl = source_fields [OF ws]
  show ?thesis
    unfolding Let_def
    by (intro conjI)
       (simp_all add: sl getTransactionHash_def fromBytesBE_longToBytes u
          fromBytesBE_numberToBytes [OF am] Hash_digest_def Hash_getBytes_def leftPadBytes_def)
qed

theorem getTransactionHash_layout_witness:
  "fullyPopulated sampleImports sampleTemplate
   \<and> getTransactionHash sampleImports sampleTemplate
       = Hash_digest sampleImports (getTransactionHash_source sampleImports sampleTemplate)
   \<and> length (getTransactionHash_source sampleImports sampleTemplate) = 298
   \<and> fromBytesBE (bytesAt 0 8 (getTransactionHash_source sampleImports sampleTemplate)) = 1
   \<and> fromBytesBE (bytesAt 16 8 (getTransactionHash_source sampleImports sampleTemplate)) = 2
   \<and> bytesAt 96 20 (getTransactionHash_source sampleImports sampleTemplate)
       = [0,0,0,0,0,0,0,0,0,0,0,0,0,0,0,0,0,0,0,1]
   \<and> fromBytesBE (bytesAt 136 32 (getTransactionHash_source sampleImports sampleTemplate)) = 100
   \<and> bytesAt 168 10 (getTransactionHash_source sampleImports sampleTemplate)
       = [0,0,0,0,0,0,0,0,0,0]
   \<and> bytesAt 290 8 (getTransactionHash_source sampleImports sampleTemplate)
       = [0,0,0,0,0,0,0,0]"
proof -
  have ts: "length (TokenStandard_getBytes (tokenStandard sampleTemplate)) = 10"
    by (simp add: sampleTemplate_def TokenStandard_getBytes_def)
  have fields: "version sampleTemplate = 1" "blockType sampleTemplate = 2"
      "amount sampleTemplate = 100"
      "Address_getBytes (address sampleTemplate) = [0,0,0,0,0,0,0,0,0,0,0,0,0,0,0,0,0,0,0,1]"
      "TokenStandard_getBytes (tokenStandard sampleTemplate) = [0,0,0,0,0,0,0,0,0,0]"
    by (simp_all add: sampleTemplate_def sampleAddress_def Address_getBytes_def
        TokenStandard_getBytes_def)
  have nonce: "Buffer_from_hex (nonce sampleTemplate) = [0,0,0,0,0,0,0,0]"
    by (simp add: sampleTemplate_def hexDigit_def)
  note w = getTransactionHash_layout [OF sampleTemplate_fullyPopulated, unfolded Let_def ts]
  show ?thesis
    using w sampleTemplate_fullyPopulated
    by (simp add: fields nonce)
qed

text \<open>
  Claim C6 says that the amount field is the unsigned big-endian encoding of the amount
  over the whole signed range of the data model. The comment at the call of
  \<open>numberToBytes\<close> in \<open>getTransactionHash\<close> records that a negative amount comes out as
  \<open>255, 255, ..., 255, 232\<close>, and marks it as an open repair. For the amount \<open>-24\<close>
  the field holds these bytes: read as an unsigned big-endian integer they are
  \<open>2^256 - 24\<close>, not the amount. (For an amount from 0 up to \<open>2^256\<close> the field decodes
  to the amount: lemma \<open>fromBytesBE_numberToBytes\<close>.)
\<close>

theorem negative_amount_is_sign_extended:
  "numberToBytes (- 24) 32 =
     [255,255,255,255,255,255,255,255,255,255,255,255,255,255,255,255,
      255,255,255,255,255,255,255,255,255,255,255,255,255,255,255,232]
   \<and> bytesAt 136 32 (getTransactionHash_source sampleImports (sampleTemplate\<lparr>amount := - 24\<rparr>))
       = numberToBytes (- 24) 32
   \<and> fromBytesBE (bytesAt 136 32
         (getTransactionHash_source sampleImports (sampleTemplate\<lparr>amount := - 24\<rparr>)))
       = 2 ^ 256 - 24
   \<and> fromBytesBE (bytesAt 136 32
         (getTransactionHash_source sampleImports (sampleTemplate\<lparr>amount := - 24\<rparr>)))
       \<noteq> amount (sampleTemplate\<lparr>amount := - 24\<rparr>)"
proof -
  have enc: "numberToBytes (- 24) 32 =
     [255,255,255,255,255,255,255,255,255,255,255,255,255,255,255,255,
      255,255,255,255,255,255,255,255,255,255,255,255,255,255,255,232]"
    by code_simp
  have at: "bytesAt 136 32
      (getTransactionHash_source sampleImports (sampleTemplate\<lparr>amount := - 24\<rparr>))
      = numberToBytes (- 24) 32"
    using source_fields(10) [OF sampleTemplate_wellSized, of "- 24"] by simp
  have dec: "fromBytesBE (numberToBytes (- 24) 32) = 2 ^ 256 - 24"
    by (simp add: numberToBytes_def fromBytesBE_toBytesBE)
  show ?thesis
    by (simp add: enc at dec [unfolded enc])
qed

text \<open>
  Claim C7 says that two templates that differ in exactly one field, the nonce string
  included, never have the same encoded bytes. The nonce enters the encoding through
  \<open>Buffer.from(nonce, "hex")\<close> and left-padding, so different spellings of the same
  bytes collide: the sample template with the nonce \<open>"00000000000000AB"\<close> and with the
  nonce \<open>"00000000000000ab"\<close> differ in that field only and have the same encoded
  bytes, hence the same hash whatever the digest (lemma \<open>nonce_case_collision\<close> is
  the same fact for every template and every digest).
\<close>

theorem nonce_spellings_collide:
  "nonce (sampleTemplate\<lparr>nonce := ''00000000000000AB''\<rparr>)
     \<noteq> nonce (sampleTemplate\<lparr>nonce := ''00000000000000ab''\<rparr>)
   \<and> (sampleTemplate\<lparr>nonce := ''00000000000000AB''\<rparr>)\<lparr>nonce := ''00000000000000ab''\<rparr>
       = sampleTemplate\<lparr>nonce := ''00000000000000ab''\<rparr>
   \<and> getTransactionHash_source sampleImports (sampleTemplate\<lparr>nonce := ''00000000000000AB''\<rparr>)
       = getTransactionHash_source sampleImports (sampleTemplate\<lparr>nonce := ''00000000000000ab''\<rparr>)
   \<and> getTransactionHash sampleImports (sampleTemplate\<lparr>nonce := ''00000000000000AB''\<rparr>)
       = getTransactionHash sampleImports (sampleTemplate\<lparr>nonce := ''00000000000000ab''\<rparr>)"
  using nonce_case_collision [of sampleImports sampleTemplate]
  by (simp add: getTransactionHash_def)

text \<open>
  Claim C7, as amended. The encoding is a function of the fields that the encoder
  reads: templates that agree on them have the same encoded bytes and the same hash.
  On canonical templates (integer fields within 64 bits, amount within the signed
  256-bit range, byte fields of their widths, token standards of one width, nonce
  spelled as sixteen lower-case hex digits) the converse holds: equal encoded bytes
  force equal \<open>version\<close>, \<open>chainIdentifier\<close>, \<open>blockType\<close>, \<open>height\<close>, \<open>amount\<close>,
  \<open>fusedPlasma\<close>, \<open>difficulty\<close> and \<open>nonce\<close>, equal bytes of \<open>previousHash\<close>,
  \<open>momentumAcknowledged\<close>, \<open>address\<close>, \<open>toAddress\<close>, \<open>tokenStandard\<close> and
  \<open>fromBlockHash\<close>, and equal digests of \<open>data\<close>. Two such templates that differ there
  can have the same hash only where the digest collides on their two encodings.
\<close>

theorem canonical_encoding_injective:
  assumes "canonical I t1" and "canonical I t2"
    and "length (TokenStandard_getBytes (tokenStandard t1))
          = length (TokenStandard_getBytes (tokenStandard t2))"
  shows "(getTransactionHash_source I t1 = getTransactionHash_source I t2)
           = (encodedFields I t1 = encodedFields I t2)
       \<and> (encodedFields I t1 = encodedFields I t2 \<longrightarrow>
            getTransactionHash I t1 = getTransactionHash I t2)
       \<and> (encodedFields I t1 \<noteq> encodedFields I t2
            \<and> getTransactionHash I t1 = getTransactionHash I t2 \<longrightarrow>
            getTransactionHash_source I t1 \<noteq> getTransactionHash_source I t2
            \<and> digestBytes I (getTransactionHash_source I t1)
                = digestBytes I (getTransactionHash_source I t2))"
proof (intro conjI impI)
  show "(getTransactionHash_source I t1 = getTransactionHash_source I t2)
           = (encodedFields I t1 = encodedFields I t2)"
    using fields_determined_by_source [OF assms] source_determined_by_fields [of I t1 t2]
    by blast
next
  assume "encodedFields I t1 = encodedFields I t2"
  then show "getTransactionHash I t1 = getTransactionHash I t2"
    by (rule hash_determined_by_fields)
next
  assume h: "encodedFields I t1 \<noteq> encodedFields I t2
      \<and> getTransactionHash I t1 = getTransactionHash I t2"
  then show "getTransactionHash_source I t1 \<noteq> getTransactionHash_source I t2"
    using fields_determined_by_source [OF assms] by blast
  from h show "digestBytes I (getTransactionHash_source I t1)
      = digestBytes I (getTransactionHash_source I t2)"
    by (simp add: getTransactionHash_def Hash_digest_def)
qed

theorem canonical_encoding_injective_witness:
  "canonical sampleImports (sampleTemplate\<lparr>publicKey := []\<rparr>)
   \<and> canonical sampleImports (sampleTemplate\<lparr>nonce := ''00000000000000ab''\<rparr>)
   \<and> encodedFields sampleImports (sampleTemplate\<lparr>publicKey := []\<rparr>)
       \<noteq> encodedFields sampleImports (sampleTemplate\<lparr>nonce := ''00000000000000ab''\<rparr>)
   \<and> getTransactionHash_source sampleImports (sampleTemplate\<lparr>publicKey := []\<rparr>)
       \<noteq> getTransactionHash_source sampleImports
           (sampleTemplate\<lparr>nonce := ''00000000000000ab''\<rparr>)
   \<and> getTransactionHash sampleImports (sampleTemplate\<lparr>publicKey := []\<rparr>)
       = getTransactionHash sampleImports (sampleTemplate\<lparr>nonce := ''00000000000000ab''\<rparr>)
   \<and> digestBytes sampleImports
         (getTransactionHash_source sampleImports (sampleTemplate\<lparr>publicKey := []\<rparr>))
       = digestBytes sampleImports
           (getTransactionHash_source sampleImports
              (sampleTemplate\<lparr>nonce := ''00000000000000ab''\<rparr>))
   \<and> canonical sampleImports (sampleTemplate\<lparr>publicKey := [9]\<rparr>)
   \<and> encodedFields sampleImports (sampleTemplate\<lparr>publicKey := []\<rparr>)
       = encodedFields sampleImports (sampleTemplate\<lparr>publicKey := [9]\<rparr>)
   \<and> getTransactionHash_source sampleImports (sampleTemplate\<lparr>publicKey := []\<rparr>)
       = getTransactionHash_source sampleImports (sampleTemplate\<lparr>publicKey := [9]\<rparr>)
   \<and> getTransactionHash sampleImports (sampleTemplate\<lparr>publicKey := []\<rparr>)
       = getTransactionHash sampleImports (sampleTemplate\<lparr>publicKey := [9]\<rparr>)"
proof -
  let ?t1 = "sampleTemplate\<lparr>publicKey := []\<rparr>"
  let ?t2 = "sampleTemplate\<lparr>nonce := ''00000000000000ab''\<rparr>"
  let ?t3 = "sampleTemplate\<lparr>publicKey := [9]\<rparr>"
  note c1 = sampleTemplate_canonical(1) [of "[]"]
  note c2 = sampleTemplate_canonical(2)
  note c3 = sampleTemplate_canonical(1) [of "[9]"]
  have ts: "length (TokenStandard_getBytes (tokenStandard ?t1))
      = length (TokenStandard_getBytes (tokenStandard ?t2))"
    "length (TokenStandard_getBytes (tokenStandard ?t1))
      = length (TokenStandard_getBytes (tokenStandard ?t3))"
    by simp_all
  note far = canonical_encoding_injective [OF c1 c2 ts(1)]
  note near = canonical_encoding_injective [OF c1 c3 ts(2)]
  have ne: "encodedFields sampleImports ?t1 \<noteq> encodedFields sampleImports ?t2"
    by (simp add: encodedFields_def sampleTemplate_def)
  have eq: "encodedFields sampleImports ?t1 = encodedFields sampleImports ?t3"
    by (simp add: encodedFields_def)
  have len: "length (getTransactionHash_source sampleImports ?t1)
      = length (getTransactionHash_source sampleImports ?t2)"
    using c1 c2 by (simp add: canonical_def source_fields(1))
  have coll: "getTransactionHash sampleImports ?t1 = getTransactionHash sampleImports ?t2"
    using len by (simp add: getTransactionHash_def Hash_digest_def sampleImports_def)
  have r1: "getTransactionHash_source sampleImports ?t1
      \<noteq> getTransactionHash_source sampleImports ?t2"
    using far ne by blast
  have r2: "digestBytes sampleImports (getTransactionHash_source sampleImports ?t1)
      = digestBytes sampleImports (getTransactionHash_source sampleImports ?t2)"
    using far ne coll by blast
  have r3: "getTransactionHash_source sampleImports ?t1
      = getTransactionHash_source sampleImports ?t3"
    using near eq by blast
  have r4: "getTransactionHash sampleImports ?t1 = getTransactionHash sampleImports ?t3"
    using near eq by blast
  show ?thesis
    by (intro conjI c1 c2 ne r1 coll r2 c3 eq r3 r4)
qed

section \<open>Chain-linkage autofill\<close>



section \<open>Plasma fusion policy\<close>



section \<open>Validation gate\<close>



text \<open>
  Claim C3. A receive template whose \<open>fromBlockHash\<close> has the bytes of the empty-hash
  sentinel should fail validation. The check in \<open>_checkAndSetFields\<close> is
  \<open>transaction.fromBlockHash == emptyHash\<close>, a comparison of object references: a
  \<open>Hash\<close> object that holds the sentinel's bytes but is not the constant itself is not
  caught by it. On the sample receive template with such a hash, and a ledger that
  resolves that hash to a send block addressed to the account, validation returns
  \<open>true\<close> after looking the all-zero hash up. (The other receive rules, and the
  exemption of send blocks, hold: lemmas \<open>checkAndSetFields_run\<close> and
  \<open>send_block_skips_receive_rules\<close>.)
\<close>

theorem zero_fromBlockHash_passes_validation:
  "Hash_getBytes (fromBlockHash (sampleReceive\<lparr>fromBlockHash := zeroHashCopy\<rparr>))
     = Hash_getBytes emptyHash
   \<and> isReceiveBlock sampleImports (blockType (sampleReceive\<lparr>fromBlockHash := zeroHashCopy\<rparr>))
   \<and> \<not> isSendBlock sampleImports (Some (blockType (sampleReceive\<lparr>fromBlockHash := zeroHashCopy\<rparr>)))
   \<and> fst (checkAndSetFields sampleImports sampleZenonResolving sampleKeyPair
          (start (sampleReceive\<lparr>fromBlockHash := zeroHashCopy\<rparr>))) = Inr True
   \<and> calls (snd (checkAndSetFields sampleImports sampleZenonResolving sampleKeyPair
          (start (sampleReceive\<lparr>fromBlockHash := zeroHashCopy\<rparr>)))) =
       [Call_getAddress, Call_getPublicKey, Call_getFrontierBlock sampleAddress,
        Call_getFrontierMomentum, Call_getBlockByHash zeroHashCopy]"
proof -
  have a: "getAddress sampleKeyPair = Inr sampleAddress"
    and b: "getPublicKey sampleKeyPair = Inr [1, 2, 3]"
    by (simp_all add: sampleKeyPair_def)
  have c: "ledger_getFrontierBlock sampleZenonResolving sampleAddress = Inr None"
    and d: "ledger_getFrontierMomentum sampleZenonResolving = Inr sampleMomentum"
    by (simp_all add: sampleZenonResolving_def sampleZenon_def)
  have look: "ledger_getBlockByHash sampleZenonResolving h = Inr (Some sampleSendBlock)" for h
    by (simp add: sampleZenonResolving_def)
  have ns: "\<not> isSendBlock sampleImports (Some (blockType (sampleReceive\<lparr>fromBlockHash := zeroHashCopy\<rparr>)))"
    by (simp add: isSendBlock_iff sampleReceive_def sampleImports_def)
  have rc: "isReceiveBlock sampleImports (blockType (sampleReceive\<lparr>fromBlockHash := zeroHashCopy\<rparr>))"
    by (simp add: isReceiveBlock_def sampleReceive_def sampleImports_def)
  have same: "Hash_getBytes (fromBlockHash (sampleReceive\<lparr>fromBlockHash := zeroHashCopy\<rparr>))
      = Hash_getBytes emptyHash"
    by (simp add: Hash_getBytes_def zeroHashCopy_def emptyHash_def)
  have facts: "\<not> refEqEmptyHash zeroHashCopy" "data sampleReceive = []"
      "difficulty sampleReceive = 0" "ab_toAddress sampleSendBlock = sampleAddress"
    by (simp_all add: sampleReceive_def sampleTemplate_def refEqEmptyHash_def
        sampleSendBlock_def zeroHashCopy_def)
  note run = checkAndSetFields_run [OF a b c d, of sampleImports
      "sampleReceive\<lparr>fromBlockHash := zeroHashCopy\<rparr>"]
  have r1: "fst (checkAndSetFields sampleImports sampleZenonResolving sampleKeyPair
          (start (sampleReceive\<lparr>fromBlockHash := zeroHashCopy\<rparr>))) = Inr True"
    using ns by (simp add: run look facts difficultyGuard_def)
  have r2: "calls (snd (checkAndSetFields sampleImports sampleZenonResolving sampleKeyPair
          (start (sampleReceive\<lparr>fromBlockHash := zeroHashCopy\<rparr>)))) =
       [Call_getAddress, Call_getPublicKey, Call_getFrontierBlock sampleAddress,
        Call_getFrontierMomentum, Call_getBlockByHash zeroHashCopy]"
    using ns by (simp add: run look facts linkageCalls_def)
  show ?thesis
    by (intro conjI same rc ns r1 r2)
qed

text \<open>
  Claim C8 says that each rule of the validation gate fails with an error that tells
  which rule was violated. Every rule of \<open>_checkAndSetFields\<close> is \<open>throw Error()\<close>: an
  \<open>Error\<close> with an empty message. Five sample runs, one per rule (the \<open>emptyHash\<close>
  object as \<open>fromBlockHash\<close>; a hash the ledger does not resolve; a send block
  addressed to another account; a payload on a receive block; a difficulty without a
  nonce), all fail with the same value.
\<close>

theorem validation_errors_are_identical:
  "fst (checkAndSetFields sampleImports sampleZenonResolving sampleKeyPair
          (start (sampleReceive\<lparr>fromBlockHash := emptyHash, data := []\<rparr>))) = Inl (Error [])
   \<and> fst (checkAndSetFields sampleImports sampleZenon sampleKeyPair
          (start (sampleReceive\<lparr>fromBlockHash := zeroHashCopy, data := []\<rparr>))) = Inl (Error [])
   \<and> fst (checkAndSetFields sampleImports
            (sampleZenon\<lparr>ledger_getBlockByHash :=
               (\<lambda>h. Inr (Some (sampleSendBlock\<lparr>ab_toAddress := sampleToAddress\<rparr>)))\<rparr>)
            sampleKeyPair
          (start (sampleReceive\<lparr>fromBlockHash := zeroHashCopy, data := []\<rparr>))) = Inl (Error [])
   \<and> fst (checkAndSetFields sampleImports sampleZenonResolving sampleKeyPair
          (start (sampleReceive\<lparr>fromBlockHash := zeroHashCopy, data := [1]\<rparr>))) = Inl (Error [])
   \<and> fst (checkAndSetFields sampleImports sampleZenon sampleKeyPair
          (start (sampleTemplate\<lparr>difficulty := 1, nonce := []\<rparr>))) = Inl (Error [])"
proof -
  note k = sample_key_and_linkage
  have r1: "fst (checkAndSetFields sampleImports sampleZenonResolving sampleKeyPair
          (start (sampleReceive\<lparr>fromBlockHash := emptyHash, data := []\<rparr>))) = Inl (Error [])"
    using sampleReceive_not_send [where h = emptyHash and d = "[]"]
    by (simp add: checkAndSetFields_run [OF k(1) k(2) k(5) k(6)] refEqEmptyHash_def emptyHash_def)
  have r2: "fst (checkAndSetFields sampleImports sampleZenon sampleKeyPair
          (start (sampleReceive\<lparr>fromBlockHash := zeroHashCopy, data := []\<rparr>))) = Inl (Error [])"
    using sampleReceive_not_send [where h = zeroHashCopy and d = "[]"]
    by (simp add: checkAndSetFields_run [OF k(1) k(2) k(3) k(4)] refEqEmptyHash_def
        zeroHashCopy_def sample_lookups)
  have r3: "fst (checkAndSetFields sampleImports
            (sampleZenon\<lparr>ledger_getBlockByHash :=
               (\<lambda>h. Inr (Some (sampleSendBlock\<lparr>ab_toAddress := sampleToAddress\<rparr>)))\<rparr>)
            sampleKeyPair
          (start (sampleReceive\<lparr>fromBlockHash := zeroHashCopy, data := []\<rparr>))) = Inl (Error [])"
  proof -
    have f: "ledger_getFrontierBlock (sampleZenon\<lparr>ledger_getBlockByHash :=
               (\<lambda>h. Inr (Some (sampleSendBlock\<lparr>ab_toAddress := sampleToAddress\<rparr>)))\<rparr>)
               sampleAddress = Inr None"
      and m: "ledger_getFrontierMomentum (sampleZenon\<lparr>ledger_getBlockByHash :=
               (\<lambda>h. Inr (Some (sampleSendBlock\<lparr>ab_toAddress := sampleToAddress\<rparr>)))\<rparr>)
               = Inr sampleMomentum"
      by (simp_all add: sampleZenon_def)
    have differ: "Address_toString sampleImports sampleToAddress
        \<noteq> Address_toString sampleImports sampleAddress"
      by (simp add: sampleImports_def sampleToAddress_def sampleAddress_def)
    show ?thesis
      using sampleReceive_not_send [where h = zeroHashCopy and d = "[]"] differ
      by (simp add: checkAndSetFields_run [OF k(1) k(2) f m] refEqEmptyHash_def zeroHashCopy_def)
  qed
  have r4: "fst (checkAndSetFields sampleImports sampleZenonResolving sampleKeyPair
          (start (sampleReceive\<lparr>fromBlockHash := zeroHashCopy, data := [1]\<rparr>))) = Inl (Error [])"
    using sampleReceive_not_send [where h = zeroHashCopy and d = "[1]"]
    by (simp add: checkAndSetFields_run [OF k(1) k(2) k(5) k(6)] refEqEmptyHash_def
        zeroHashCopy_def sample_lookups sampleSendBlock_def)
  have r5: "fst (checkAndSetFields sampleImports sampleZenon sampleKeyPair
          (start (sampleTemplate\<lparr>difficulty := 1, nonce := []\<rparr>))) = Inl (Error [])"
    using sampleTemplate_send [where x = 1 and n = "[]"]
    by (simp add: checkAndSetFields_run [OF k(1) k(2) k(3) k(4)] difficultyGuard_def)
  show ?thesis
    by (intro conjI r1 r2 r3 r4 r5)
qed

text \<open>
  Claim C8, as amended. When the key material and the ledger answer, every failure of
  \<open>_checkAndSetFields\<close> is the bare \<open>Error\<close> with the empty message, whichever rule
  was violated, and \<open>send\<close> stops there with that same error and state.
\<close>

theorem validation_failure_is_bare_Error:
  assumes "getAddress currentKeyPair = Inr a"
    and "getPublicKey currentKeyPair = Inr pk"
    and "ledger_getFrontierBlock zenonInstance a = Inr frontier"
    and "ledger_getFrontierMomentum zenonInstance = Inr momentum"
    and "ledger_getBlockByHash zenonInstance (fromBlockHash t) = Inr sendBlock"
    and "checkAndSetFields I zenonInstance currentKeyPair (start t) = (Inl e, s1)"
  shows "e = Error []
       \<and> send I zenonInstance currentKeyPair cb w (start t) = (Inl (Error []), s1)"
proof -
  have "e = Error []"
    using assms(6) assms(5)
    by (simp add: checkAndSetFields_run [OF assms(1-4)] difficultyGuard_def
        split: if_splits option.splits)
  with send_aborts_with_gate [OF assms(6)] show ?thesis by simp
qed

theorem validation_failure_is_bare_Error_witness:
  "getAddress sampleKeyPair = Inr sampleAddress
   \<and> getPublicKey sampleKeyPair = Inr [1, 2, 3]
   \<and> ledger_getFrontierBlock sampleZenonResolving sampleAddress = Inr None
   \<and> ledger_getFrontierMomentum sampleZenonResolving = Inr sampleMomentum
   \<and> ledger_getBlockByHash sampleZenonResolving
         (fromBlockHash (sampleReceive\<lparr>fromBlockHash := zeroHashCopy, data := [1]\<rparr>))
       = Inr (Some sampleSendBlock)
   \<and> checkAndSetFields sampleImports sampleZenonResolving sampleKeyPair
         (start (sampleReceive\<lparr>fromBlockHash := zeroHashCopy, data := [1]\<rparr>)) =
       (Inl (Error []),
        \<lparr>template = linked (sampleReceive\<lparr>fromBlockHash := zeroHashCopy, data := [1]\<rparr>)
                      sampleAddress [1, 2, 3] None sampleMomentum,
         calls = linkageCalls sampleAddress @ [Call_getBlockByHash zeroHashCopy]\<rparr>)
   \<and> send sampleImports sampleZenonResolving sampleKeyPair None False
         (start (sampleReceive\<lparr>fromBlockHash := zeroHashCopy, data := [1]\<rparr>)) =
       (Inl (Error []),
        \<lparr>template = linked (sampleReceive\<lparr>fromBlockHash := zeroHashCopy, data := [1]\<rparr>)
                      sampleAddress [1, 2, 3] None sampleMomentum,
         calls = linkageCalls sampleAddress @ [Call_getBlockByHash zeroHashCopy]\<rparr>)"
proof -
  note k = sample_key_and_linkage
  have look: "ledger_getBlockByHash sampleZenonResolving
         (fromBlockHash (sampleReceive\<lparr>fromBlockHash := zeroHashCopy, data := [1]\<rparr>))
       = Inr (Some sampleSendBlock)"
    by (rule sample_lookups)
  have run: "checkAndSetFields sampleImports sampleZenonResolving sampleKeyPair
         (start (sampleReceive\<lparr>fromBlockHash := zeroHashCopy, data := [1]\<rparr>)) =
       (Inl (Error []),
        \<lparr>template = linked (sampleReceive\<lparr>fromBlockHash := zeroHashCopy, data := [1]\<rparr>)
                      sampleAddress [1, 2, 3] None sampleMomentum,
         calls = linkageCalls sampleAddress @ [Call_getBlockByHash zeroHashCopy]\<rparr>)"
    using sampleReceive_not_send [where h = zeroHashCopy and d = "[1]"]
    by (simp add: checkAndSetFields_run [OF k(1) k(2) k(5) k(6)] refEqEmptyHash_def
        zeroHashCopy_def sample_lookups sampleSendBlock_def)
  note w = validation_failure_is_bare_Error [OF k(1) k(2) k(5) k(6) look run,
      where cb = None and w = False]
  show ?thesis
    using w by (intro conjI k(1) k(2) k(5) k(6) look run) simp
qed

section \<open>The progress observer\<close>




section \<open>The pipeline \<open>send\<close>\<close>



end
